theory Spec2Isabelle
  imports Main "HOL-Library.Word"
begin

section \<open>send\_email.py: configuration, message assembly and the SMTP session\<close>

text \<open>
  A shallow embedding of \<^verbatim>\<open>src/send_email.py\<close>. Python dictionaries with a fixed set of
  literal keys (\<^verbatim>\<open>YAHOO_DEFAULTS\<close>, \<^verbatim>\<open>cfg\<close>, \<^verbatim>\<open>tr\<close>, \<^verbatim>\<open>msg_cfg\<close>) and the
  \<^verbatim>\<open>argparse.Namespace\<close> are records, \<^verbatim>\<open>str | None\<close> is \<open>string option\<close>, exceptions are
  values of the type \<open>error\<close>, the process environment, the file system and what the
  email library and the network accept are explicit arguments, and the calls made on the
  SMTP connection are returned as a trace.

  Strings are ASCII: \<^verbatim>\<open>str.lower\<close>, \<^verbatim>\<open>str.splitlines\<close>, \<^verbatim>\<open>repr\<close> and \<^verbatim>\<open>int\<close> are
  modelled on the characters 0 to 127.
\<close>

subsection \<open>Python values\<close>

text \<open>
  Exceptions: the classes that the program raises or that the statements name, and
  \<open>OtherError\<close> with the class name and the text for any other class.
\<close>

datatype error =
    ValueError string
  | FileNotFoundError string
  | SystemExit nat
  | OtherError string string

text \<open>One step after another: the first exception ends the sequence.\<close>

definition and_then :: "error + 'a \<Rightarrow> ('a \<Rightarrow> error + 'b) \<Rightarrow> error + 'b" where
  "and_then r f = (case r of Inl e \<Rightarrow> Inl e | Inr x \<Rightarrow> f x)"

type_synonym bytes = "8 word list"

text \<open>Truthiness of a \<^verbatim>\<open>str | None\<close> value: \<^verbatim>\<open>None\<close> and \<^verbatim>\<open>""\<close> are false.\<close>

definition truthy :: "string option \<Rightarrow> bool" where
  "truthy x = (case x of None \<Rightarrow> False | Some s \<Rightarrow> s \<noteq> [])"

text \<open>\<^verbatim>\<open>a or b\<close> on \<^verbatim>\<open>str | None\<close> values.\<close>

definition py_or :: "string option \<Rightarrow> string option \<Rightarrow> string option" where
  "py_or a b = (if truthy a then a else b)"

text \<open>\<^verbatim>\<open>a or "literal"\<close>, whose value is always a string.\<close>

definition or_str :: "string option \<Rightarrow> string \<Rightarrow> string" where
  "or_str a d = (case a of None \<Rightarrow> d | Some s \<Rightarrow> if s = [] then d else s)"

text \<open>\<^verbatim>\<open>xs or []\<close> on an optional list.\<close>

definition or_nil :: "'a list option \<Rightarrow> 'a list" where
  "or_nil xs = (case xs of None \<Rightarrow> [] | Some ys \<Rightarrow> ys)"

text \<open>\<^verbatim>\<open>str.lower\<close> on ASCII.\<close>

definition lower_char :: "char \<Rightarrow> char" where
  "lower_char c =
     (case map_of (zip ''ABCDEFGHIJKLMNOPQRSTUVWXYZ'' ''abcdefghijklmnopqrstuvwxyz'') c of
        None \<Rightarrow> c
      | Some d \<Rightarrow> d)"

definition lower :: "string \<Rightarrow> string" where
  "lower s = map lower_char s"

text \<open>\<^verbatim>\<open>sep.join(xs)\<close>.\<close>

fun join :: "string \<Rightarrow> string list \<Rightarrow> string" where
  "join sep [] = []"
| "join sep [x] = x"
| "join sep (x # y # ys) = x @ sep @ join sep (y # ys)"

text \<open>
  \<^verbatim>\<open>repr(s)\<close> of an ASCII string: double quotes around it when it holds a single quote
  and no double quote, single quotes otherwise; the quote and the backslash are escaped,
  and so are the control characters.
\<close>

definition hex_digit :: "nat \<Rightarrow> char" where
  "hex_digit n = ''0123456789abcdef'' ! n"

definition repr_char :: "char \<Rightarrow> char \<Rightarrow> string" where
  "repr_char quote c =
     (let n = (of_char c :: nat) in
      if c = quote \<or> c = CHR 0x5C then [CHR 0x5C, c]
      else if n = 9 then [CHR 0x5C, CHR ''t'']
      else if n = 10 then [CHR 0x5C, CHR ''n'']
      else if n = 13 then [CHR 0x5C, CHR ''r'']
      else if n < 32 \<or> n = 127
        then [CHR 0x5C, CHR ''x'', hex_digit (n div 16), hex_digit (n mod 16)]
      else [c])"

definition repr :: "string \<Rightarrow> string" where
  "repr s =
     (let quote = (if CHR 0x27 \<in> set s \<and> CHR 0x22 \<notin> set s then CHR 0x22 else CHR 0x27)
      in quote # concat (map (repr_char quote) s) @ [quote])"

text \<open>A natural number in decimal digits.\<close>

function decimal :: "nat \<Rightarrow> string" where
  "decimal n =
     (if n < 10 then [''0123456789'' ! n]
      else decimal (n div 10) @ [''0123456789'' ! (n mod 10)])"
  by pat_completeness auto
termination
  by (relation "measure id") auto

text \<open>
  \<^verbatim>\<open>int(s)\<close> for an ASCII string, base 10, as CPython converts it. Blanks (the
  characters 9 to 13 and 32) are skipped in front, one sign may follow, and then come the
  digits, where a single underscore may stand between two digits; blanks may follow, and
  nothing else. A string of another form raises the \<^verbatim>\<open>ValueError\<close> of an invalid literal,
  whose text shows at most 200 characters of \<^verbatim>\<open>repr(s)\<close>. A well-formed run of more than
  4300 digits raises the \<^verbatim>\<open>ValueError\<close> of the limit, before what follows the digits is
  looked at; 4300 is \<^verbatim>\<open>sys.int_info.default_max_str_digits\<close>, the limit of an interpreter
  that was started without another setting.
\<close>

definition is_space :: "char \<Rightarrow> bool" where
  "is_space c = (let n = (of_char c :: nat) in (9 \<le> n \<and> n \<le> 13) \<or> n = 32)"

definition is_digit :: "char \<Rightarrow> bool" where
  "is_digit c = (let n = (of_char c :: nat) in 48 \<le> n \<and> n \<le> 57)"

definition digit_val :: "char \<Rightarrow> int" where
  "digit_val c = int (of_char c) - 48"

definition invalid_literal :: "string \<Rightarrow> error" where
  "invalid_literal s =
     ValueError (''invalid literal for int() with base 10: '' @ take 200 (repr s))"

definition max_str_digits :: nat where
  "max_str_digits = 4300"

definition exceeds_limit :: "nat \<Rightarrow> error" where
  "exceeds_limit n =
     ValueError (''Exceeds the limit ('' @ decimal max_str_digits
       @ '' digits) for integer string conversion: value has '' @ decimal n
       @ '' digits; use sys.set_int_max_str_digits() to increase the limit'')"

text \<open>
  The run of digits and underscores at the front of a string: its value, the number of
  its digits and the rest of the string; \<open>None\<close> when two underscores meet or the run
  ends in one.
\<close>

fun scan_digits :: "int \<Rightarrow> nat \<Rightarrow> bool \<Rightarrow> string \<Rightarrow> (int \<times> nat \<times> string) option" where
  "scan_digits acc n after_underscore [] =
     (if after_underscore then None else Some (acc, n, []))"
| "scan_digits acc n after_underscore (c # cs) =
     (if is_digit c then scan_digits (10 * acc + digit_val c) (Suc n) False cs
      else if c = CHR ''_''
        then (if after_underscore then None else scan_digits acc n True cs)
      else if after_underscore then None
      else Some (acc, n, c # cs))"

definition py_int :: "string \<Rightarrow> error + int" where
  "py_int s =
     (case (case dropWhile is_space s of
              [] \<Rightarrow> (False, [])
            | c # cs \<Rightarrow>
                if c = CHR ''-'' then (True, cs)
                else if c = CHR ''+'' then (False, cs)
                else (False, c # cs)) of
        (negative, u) \<Rightarrow>
          if take 1 u = ''_'' then Inl (invalid_literal s)
          else (case scan_digits 0 0 False u of
                  None \<Rightarrow> Inl (invalid_literal s)
                | Some (v, n, rest) \<Rightarrow>
                    if max_str_digits < n then Inl (exceeds_limit n)
                    else if n = 0 \<or> dropWhile is_space rest \<noteq> [] then Inl (invalid_literal s)
                    else Inr (if negative then - v else v)))"

subsection \<open>The environment and the built-in defaults\<close>

type_synonym environ = "string \<rightharpoonup> string"

text \<open>\<^verbatim>\<open>os.getenv(key, default)\<close>: the default is used only when the variable is unset.\<close>

definition getenv_default :: "environ \<Rightarrow> string \<Rightarrow> string \<Rightarrow> string" where
  "getenv_default env key d = (case env key of None \<Rightarrow> d | Some v \<Rightarrow> v)"

record defaults =
  MAIL_PROVIDER :: string
  MAIL_USER :: string
  MAIL_PASS :: string
  MAIL_HOST :: string
  MAIL_PORT :: string
  MAIL_ENCRYPTION :: string
  MAIL_FROM_NAME :: string
  MAIL_FROM_ADDRESS :: string

definition YAHOO_DEFAULTS :: "environ \<Rightarrow> defaults" where
  "YAHOO_DEFAULTS env =
     \<lparr> MAIL_PROVIDER = ''smtp'',
       MAIL_USER = getenv_default env ''YAHOO_EMAIL'' ''antonio.trento@yahoo.com'',
       MAIL_PASS = getenv_default env ''YAHOO_APP_PASSWORD'' '''',
       MAIL_HOST = ''smtp.mail.yahoo.com'',
       MAIL_PORT = ''587'',
       MAIL_ENCRYPTION = ''tls'',
       MAIL_FROM_NAME = '''',
       MAIL_FROM_ADDRESS = getenv_default env ''YAHOO_EMAIL'' ''antonio.trento@yahoo.com'' \<rparr>"

definition env_get :: "environ \<Rightarrow> string \<Rightarrow> string option \<Rightarrow> string option" where
  "env_get env key fallback =
     (case env key of
        None \<Rightarrow> fallback
      | Some val \<Rightarrow> if val = [] then fallback else Some val)"

text \<open>The set literal \<^verbatim>\<open>{"tls", "ssl", "none"}\<close> of both membership tests.\<close>

definition encryption_modes :: "string set" where
  "encryption_modes = {''tls'', ''ssl'', ''none''}"

record cfg =
  c_provider :: string
  c_user :: string
  c_password :: string
  c_host :: string
  c_port :: int
  c_encryption :: string
  c_from_name :: string
  c_from_address :: string

text \<open>
  The entry \<^verbatim>\<open>"port": int(env_get("MAIL_PORT", ...) or 587)\<close>: \<^verbatim>\<open>int\<close> of a string may
  raise, \<^verbatim>\<open>int(587)\<close> does not.
\<close>

definition env_port :: "environ \<Rightarrow> error + int" where
  "env_port env =
     (case env_get env ''MAIL_PORT'' (Some (MAIL_PORT (YAHOO_DEFAULTS env))) of
        None \<Rightarrow> Inr 587
      | Some s \<Rightarrow> if s = [] then Inr 587 else py_int s)"

definition load_transport_from_env :: "environ \<Rightarrow> error + cfg" where
  "load_transport_from_env env =
     (let d = YAHOO_DEFAULTS env in
      case env_port env of
        Inl e \<Rightarrow> Inl e
      | Inr p \<Rightarrow>
          let cfg =
            \<lparr> c_provider = or_str (env_get env ''MAIL_PROVIDER'' (Some (MAIL_PROVIDER d))) ''smtp'',
              c_user = or_str (env_get env ''MAIL_USER'' (Some (MAIL_USER d))) '''',
              c_password = or_str (env_get env ''MAIL_PASS'' (Some (MAIL_PASS d))) '''',
              c_host = or_str (env_get env ''MAIL_HOST'' (Some (MAIL_HOST d))) '''',
              c_port = p,
              c_encryption =
                lower (or_str (env_get env ''MAIL_ENCRYPTION'' (Some (MAIL_ENCRYPTION d))) ''tls''),
              c_from_name = or_str (env_get env ''MAIL_FROM_NAME'' (Some (MAIL_FROM_NAME d))) '''',
              c_from_address =
                or_str (env_get env ''MAIL_FROM_ADDRESS'' (Some (MAIL_FROM_ADDRESS d))) '''' \<rparr>
          in Inr (if c_encryption cfg \<notin> encryption_modes
                  then cfg\<lparr>c_encryption := ''tls''\<rparr> else cfg))"

subsection \<open>Command-line arguments\<close>

text \<open>
  The namespace that \<^verbatim>\<open>parse_args\<close> returns. Options declared with \<^verbatim>\<open>default=None\<close> and
  those with \<^verbatim>\<open>action="append"\<close> are \<open>None\<close> when the flag is not given.
\<close>

record args =
  a_to :: "string list"
  a_cc :: "string list option"
  a_bcc :: "string list option"
  a_subject :: string
  a_text :: string
  a_html :: "string option"
  a_attachments :: "string list option"
  a_reply_to :: "string option"
  a_from_address :: "string option"
  a_from_name :: "string option"
  a_user :: "string option"
  a_password :: "string option"
  a_host :: "string option"
  a_port :: "int option"
  a_encryption :: "string option"
  a_cafile :: "string option"
  a_insecure :: bool
  a_dry_run :: bool

text \<open>
  What the command line holds for each declared flag, before \<^verbatim>\<open>argparse\<close> converts and
  checks it: every value given for a repeatable flag, the last value given for any other
  flag, and whether a switch is present. Splitting \<^verbatim>\<open>sys.argv\<close> into these is the
  library's part.
\<close>

record raw_args =
  r_to :: "string list"
  r_cc :: "string list"
  r_bcc :: "string list"
  r_subject :: "string option"
  r_text :: "string option"
  r_html :: "string option"
  r_attachments :: "string list"
  r_reply_to :: "string option"
  r_from_address :: "string option"
  r_from_name :: "string option"
  r_user :: "string option"
  r_password :: "string option"
  r_host :: "string option"
  r_port :: "string option"
  r_encryption :: "string option"
  r_cafile :: "string option"
  r_insecure :: bool
  r_dry_run :: bool

text \<open>\<^verbatim>\<open>action="append"\<close> with the default \<^verbatim>\<open>None\<close>.\<close>

definition appended :: "string list \<Rightarrow> string list option" where
  "appended xs = (if xs = [] then None else Some xs)"

text \<open>
  \<^verbatim>\<open>parse_args\<close>: \<^verbatim>\<open>--to\<close> and \<^verbatim>\<open>--subject\<close> are required, \<^verbatim>\<open>--port\<close> has
  \<^verbatim>\<open>type=int\<close>, \<^verbatim>\<open>--encryption\<close> has \<^verbatim>\<open>choices=["tls", "ssl", "none"]\<close>. Every violation
  ends in \<^verbatim>\<open>parser.error\<close>, which exits with status 2.
\<close>

definition encryption_choices :: "string list" where
  "encryption_choices = [''tls'', ''ssl'', ''none'']"

definition parse_args :: "raw_args \<Rightarrow> error + args" where
  "parse_args r =
     (if r_to r = [] \<or> r_subject r = None then Inl (SystemExit 2)
      else if (case r_port r of None \<Rightarrow> False | Some s \<Rightarrow> isl (py_int s))
        then Inl (SystemExit 2)
      else if (case r_encryption r of None \<Rightarrow> False | Some s \<Rightarrow> s \<notin> set encryption_choices)
        then Inl (SystemExit 2)
      else Inr
        \<lparr> a_to = r_to r,
          a_cc = appended (r_cc r),
          a_bcc = appended (r_bcc r),
          a_subject = (case r_subject r of None \<Rightarrow> [] | Some s \<Rightarrow> s),
          a_text = (case r_text r of None \<Rightarrow> [] | Some s \<Rightarrow> s),
          a_html = r_html r,
          a_attachments = appended (r_attachments r),
          a_reply_to = r_reply_to r,
          a_from_address = r_from_address r,
          a_from_name = r_from_name r,
          a_user = r_user r,
          a_password = r_password r,
          a_host = r_host r,
          a_port = (case r_port r of
                      None \<Rightarrow> None
                    | Some s \<Rightarrow> (case py_int s of Inl e \<Rightarrow> None | Inr n \<Rightarrow> Some n)),
          a_encryption = r_encryption r,
          a_cafile = r_cafile r,
          a_insecure = r_insecure r,
          a_dry_run = r_dry_run r \<rparr>)"

subsection \<open>Configuration resolution\<close>

record transport =
  t_user :: string
  t_password :: string
  t_host :: string
  t_port :: int
  t_encryption :: string
  t_from_name :: string
  t_from_address :: string
  t_cafile :: "string option"
  t_insecure :: bool

record msg_cfg =
  m_from_address :: string
  m_from_name :: string

text \<open>\<^verbatim>\<open>args.x if args.x is not None else env_cfg["x"]\<close>.\<close>

definition if_not_None :: "'a option \<Rightarrow> 'a \<Rightarrow> 'a" where
  "if_not_None a e = (case a of None \<Rightarrow> e | Some v \<Rightarrow> v)"

text \<open>The dictionary \<^verbatim>\<open>tr\<close> as first built in \<^verbatim>\<open>resolve_config\<close>: command-line overrides.\<close>

definition cli_overrides :: "args \<Rightarrow> cfg \<Rightarrow> transport" where
  "cli_overrides args env_cfg =
     \<lparr> t_user = if_not_None (a_user args) (c_user env_cfg),
       t_password = if_not_None (a_password args) (c_password env_cfg),
       t_host = if_not_None (a_host args) (c_host env_cfg),
       t_port = if_not_None (a_port args) (c_port env_cfg),
       t_encryption = if_not_None (a_encryption args) (c_encryption env_cfg),
       t_from_name = if_not_None (a_from_name args) (c_from_name env_cfg),
       t_from_address = if_not_None (a_from_address args) (c_from_address env_cfg),
       t_cafile = a_cafile args,
       t_insecure = a_insecure args \<rparr>"

text \<open>The four conditional assignments that follow: validation and fallbacks.\<close>

definition fallbacks :: "environ \<Rightarrow> transport \<Rightarrow> error + transport" where
  "fallbacks env tr0 =
     (let tr1 = (if t_from_address tr0 = [] then tr0\<lparr>t_from_address := t_user tr0\<rparr> else tr0);
          tr2 = (if t_host tr1 = [] then tr1\<lparr>t_host := MAIL_HOST (YAHOO_DEFAULTS env)\<rparr> else tr1)
      in case (if t_port tr2 = 0
               then (case py_int (MAIL_PORT (YAHOO_DEFAULTS env)) of
                       Inl e \<Rightarrow> Inl e
                     | Inr n \<Rightarrow> Inr (tr2\<lparr>t_port := n\<rparr>))
               else Inr tr2) of
            Inl e \<Rightarrow> Inl e
          | Inr tr3 \<Rightarrow>
              Inr (if t_encryption tr3 \<notin> encryption_modes
                   then tr3\<lparr>t_encryption := ''tls''\<rparr> else tr3))"

definition resolve_config :: "environ \<Rightarrow> args \<Rightarrow> error + transport \<times> msg_cfg" where
  "resolve_config env args =
     (case load_transport_from_env env of
        Inl e \<Rightarrow> Inl e
      | Inr env_cfg \<Rightarrow>
          (case fallbacks env (cli_overrides args env_cfg) of
             Inl e \<Rightarrow> Inl e
           | Inr tr \<Rightarrow>
               Inr (tr, \<lparr> m_from_address = t_from_address tr, m_from_name = t_from_name tr \<rparr>)))"

subsection \<open>Messages\<close>

text \<open>
  An \<^verbatim>\<open>EmailMessage\<close>: the headers that \<^verbatim>\<open>build_message\<close> assigns, in the order of
  assignment; the content, whose own \<^verbatim>\<open>Content-*\<close> headers are determined by its shape;
  and the attribute \<^verbatim>\<open>__all_recipients__\<close>, absent on a fresh message.
\<close>

datatype mime =
    Text_part string string
  | File_part bytes string string string
  | Multipart string "mime list"

record message =
  headers :: "(string \<times> string) list"
  payload :: "mime option"
  all_recipients :: "string list option"

definition EmailMessage :: message where
  "EmailMessage = \<lparr> headers = [], payload = None, all_recipients = None \<rparr>"

text \<open>
  What the email library accepts is its own matter: an assignment to a header hands the
  value to the parser of that header, the creation of a part hands text, bytes, types and
  file name to the content manager, and either may raise. The library is therefore an
  argument: it gives, for a header name and a value, and for a part, the exception that the
  library raises on them, if any.
\<close>

record library =
  store_header :: "string \<Rightarrow> string \<Rightarrow> error option"
  store_part :: "mime \<Rightarrow> error option"

text \<open>\<^verbatim>\<open>msg[name] = value\<close> appends a header, unless the library refuses the value.\<close>

definition set_header :: "library \<Rightarrow> message \<Rightarrow> string \<Rightarrow> string \<Rightarrow> error + message" where
  "set_header lib msg name v =
     (case store_header lib name v of
        Some e \<Rightarrow> Inl e
      | None \<Rightarrow> Inr (msg\<lparr>headers := headers msg @ [(name, v)]\<rparr>))"

text \<open>\<^verbatim>\<open>msg.set_content(text)\<close>: a \<^verbatim>\<open>text/plain\<close> body.\<close>

definition set_content :: "library \<Rightarrow> message \<Rightarrow> string \<Rightarrow> error + message" where
  "set_content lib msg text =
     (case store_part lib (Text_part ''plain'' text) of
        Some e \<Rightarrow> Inl e
      | None \<Rightarrow> Inr (msg\<lparr>payload := Some (Text_part ''plain'' text)\<rparr>))"

text \<open>
  The library's \<^verbatim>\<open>_add_multipart\<close>. First the message is made a
  \<^verbatim>\<open>multipart/<subtype>\<close> container unless it is one: its content becomes the first part
  of the container, which is refused for a container of a disallowed subtype. Then the new
  part is created and attached last.
\<close>

definition make_multipart :: "string \<Rightarrow> string list \<Rightarrow> mime option \<Rightarrow> error + mime list" where
  "make_multipart subtype disallowed content =
     (case content of
        None \<Rightarrow> Inr []
      | Some (Multipart s ps) \<Rightarrow>
          if s = subtype then Inr ps
          else if s \<in> set disallowed
            then Inl (ValueError (''Cannot convert '' @ s @ '' to '' @ subtype))
          else Inr [Multipart s ps]
      | Some c \<Rightarrow> Inr [c])"

definition add_multipart ::
  "library \<Rightarrow> string \<Rightarrow> string list \<Rightarrow> mime \<Rightarrow> message \<Rightarrow> error + message" where
  "add_multipart lib subtype disallowed part msg =
     and_then (make_multipart subtype disallowed (payload msg))
       (\<lambda>ps. case store_part lib part of
               Some e \<Rightarrow> Inl e
             | None \<Rightarrow> Inr (msg\<lparr>payload := Some (Multipart subtype (ps @ [part]))\<rparr>))"

text \<open>\<^verbatim>\<open>msg.add_alternative(html, subtype="html")\<close>.\<close>

definition add_alternative :: "library \<Rightarrow> message \<Rightarrow> string \<Rightarrow> error + message" where
  "add_alternative lib msg html =
     add_multipart lib ''alternative'' [''mixed''] (Text_part ''html'' html) msg"

text \<open>\<^verbatim>\<open>msg.add_attachment(data, maintype=..., subtype=..., filename=...)\<close>.\<close>

definition add_attachment ::
  "library \<Rightarrow> message \<Rightarrow> bytes \<Rightarrow> string \<Rightarrow> string \<Rightarrow> string \<Rightarrow> error + message" where
  "add_attachment lib msg data maintype subtype filename =
     add_multipart lib ''mixed'' [] (File_part data maintype subtype filename) msg"

text \<open>
  \<^verbatim>\<open>email.utils.formataddr((name, address))\<close>: a name holding one of the characters
  \<^verbatim>\<open>[]\()<>@,:;".\<close> is quoted, and backslashes and double quotes in it are escaped.
\<close>

definition specials :: string where
  "specials = ''[]()<>@,:;.'' @ [CHR 0x5C, CHR 0x22]"

definition escape :: "string \<Rightarrow> string" where
  "escape name =
     concat (map (\<lambda>c. if c = CHR 0x5C \<or> c = CHR 0x22 then [CHR 0x5C, c] else [c]) name)"

definition formataddr :: "string \<Rightarrow> string \<Rightarrow> string" where
  "formataddr name address =
     (if name \<noteq> [] then
        (let quotes = (if list_ex (\<lambda>c. c \<in> set specials) name then [CHR 0x22] else [])
         in quotes @ escape name @ quotes @ '' <'' @ address @ ''>'')
      else address)"

subsection \<open>Files\<close>

text \<open>
  \<^verbatim>\<open>Path(f)\<close> on a POSIX system: the root is \<^verbatim>\<open>//\<close> for exactly two leading slashes,
  \<^verbatim>\<open>/\<close> for one or for more than two, and empty otherwise; the parts are the components
  between slashes apart from the empty ones and from \<^verbatim>\<open>.\<close>. \<^verbatim>\<open>str(path)\<close> joins them
  again, and is \<^verbatim>\<open>.\<close> for no root and no part; \<^verbatim>\<open>path.name\<close> is the last part, or empty.
\<close>

record path =
  root :: string
  parts :: "string list"

fun components :: "string \<Rightarrow> string \<Rightarrow> string list" where
  "components cur [] = [cur]"
| "components cur (c # cs) =
     (if c = CHR ''/'' then cur # components [] cs else components (cur @ [c]) cs)"

definition Path :: "string \<Rightarrow> path" where
  "Path f =
     (let slashes = length (takeWhile (\<lambda>c. c = CHR ''/'') f) in
      \<lparr> root = (if slashes = 0 then [] else if slashes = 2 then ''//'' else ''/''),
        parts = filter (\<lambda>p. p \<noteq> [] \<and> p \<noteq> ''.'') (components [] f) \<rparr>)"

definition path_str :: "path \<Rightarrow> string" where
  "path_str p = (if root p = [] \<and> parts p = [] then ''.'' else root p @ join ''/'' (parts p))"

definition path_name :: "path \<Rightarrow> string" where
  "path_name p = (if parts p = [] then [] else last (parts p))"

text \<open>
  The file system maps the string of a path to what is there: a regular file with its
  bytes, which can be read, or a directory.
\<close>

datatype node = File bytes | Directory

type_synonym filesystem = "string \<rightharpoonup> node"

definition path_exists :: "filesystem \<Rightarrow> path \<Rightarrow> bool" where
  "path_exists fs p = (fs (path_str p) \<noteq> None)"

definition is_file :: "filesystem \<Rightarrow> path \<Rightarrow> bool" where
  "is_file fs p = (case fs (path_str p) of Some (File _) \<Rightarrow> True | _ \<Rightarrow> False)"

definition read_bytes :: "filesystem \<Rightarrow> path \<Rightarrow> bytes" where
  "read_bytes fs p = (case fs (path_str p) of Some (File data) \<Rightarrow> data | _ \<Rightarrow> [])"

text \<open>
  \<^verbatim>\<open>mimetypes.guess_type\<close> is a table of the installation: it is an argument, giving for
  the string of a path the two halves of \<^verbatim>\<open>ctype.split("/", 1)\<close>, or \<open>None\<close>.
\<close>

type_synonym guess_type = "string \<Rightarrow> (string \<times> string) option"

definition guess_mime_type :: "guess_type \<Rightarrow> path \<Rightarrow> string \<times> string" where
  "guess_mime_type guess p =
     (case guess (path_str p) of
        None \<Rightarrow> (''application'', ''octet-stream'')
      | Some (maintype, subtype) \<Rightarrow> (maintype, subtype))"

subsection \<open>Building the message\<close>

text \<open>The header assignments of \<^verbatim>\<open>build_message\<close>, in their order.\<close>

definition message_headers ::
  "library \<Rightarrow> string \<Rightarrow> string \<Rightarrow> string list \<Rightarrow> string \<Rightarrow> string list option
     \<Rightarrow> string option \<Rightarrow> message \<Rightarrow> error + message" where
  "message_headers lib from_address from_name to subject cc reply_to msg0 =
     (let display_from =
            (if from_name \<noteq> [] then formataddr from_name from_address else from_address)
      in and_then (set_header lib msg0 ''From'' display_from) (\<lambda>msg1.
         and_then (set_header lib msg1 ''To'' (join '', '' to)) (\<lambda>msg2.
         and_then (case cc of
                     Some (c # cs) \<Rightarrow> set_header lib msg2 ''Cc'' (join '', '' (c # cs))
                   | _ \<Rightarrow> Inr msg2) (\<lambda>msg3.
         and_then (set_header lib msg3 ''Subject'' subject) (\<lambda>msg4.
         if truthy reply_to then set_header lib msg4 ''Reply-To'' (or_str reply_to [])
         else Inr msg4)))))"

text \<open>The body: \<^verbatim>\<open>if html: ... else: ...\<close>.\<close>

definition message_body ::
  "library \<Rightarrow> string \<Rightarrow> string option \<Rightarrow> message \<Rightarrow> error + message" where
  "message_body lib text html msg =
     (if truthy html
      then and_then (set_content lib msg text) (\<lambda>msg'. add_alternative lib msg' (or_str html []))
      else set_content lib msg text)"

text \<open>The guard of the loop: \<^verbatim>\<open>not path.exists() or not path.is_file()\<close>.\<close>

definition missing :: "filesystem \<Rightarrow> path \<Rightarrow> bool" where
  "missing fs p = (\<not> path_exists fs p \<or> \<not> is_file fs p)"

text \<open>The loop over the attachment paths.\<close>

fun attach_files ::
  "filesystem \<Rightarrow> library \<Rightarrow> guess_type \<Rightarrow> string list \<Rightarrow> message \<Rightarrow> error + message" where
  "attach_files fs lib guess [] msg = Inr msg"
| "attach_files fs lib guess (f # rest) msg =
     (let p = Path f in
      if missing fs p
      then Inl (FileNotFoundError (''Allegato non trovato: '' @ path_str p))
      else (case guess_mime_type guess p of
              (maintype, subtype) \<Rightarrow>
                and_then (add_attachment lib msg (read_bytes fs p) maintype subtype (path_name p))
                  (attach_files fs lib guess rest)))"

text \<open>
  \<^verbatim>\<open>list({*(to or []), *(cc or []), *(bcc or [])})\<close>: the distinct addresses. Python
  leaves the order of the list open; the model keeps the order of first occurrence.
\<close>

definition recipients_of ::
  "string list \<Rightarrow> string list option \<Rightarrow> string list option \<Rightarrow> string list" where
  "recipients_of to cc bcc = remdups (to @ or_nil cc @ or_nil bcc)"

definition build_message ::
  "filesystem \<Rightarrow> library \<Rightarrow> guess_type \<Rightarrow> string \<Rightarrow> string \<Rightarrow> string list \<Rightarrow> string
     \<Rightarrow> string \<Rightarrow> string option \<Rightarrow> string list option \<Rightarrow> string list option
     \<Rightarrow> string option \<Rightarrow> string list option \<Rightarrow> error + message" where
  "build_message fs lib guess from_address from_name to subject text html cc bcc reply_to
       attachments =
     and_then (message_headers lib from_address from_name to subject cc reply_to EmailMessage)
       (\<lambda>msg.
     and_then (message_body lib text html msg) (\<lambda>msg.
     and_then (attach_files fs lib guess (or_nil attachments) msg) (\<lambda>msg.
     Inr (msg\<lparr>all_recipients := Some (recipients_of to cc bcc)\<rparr>))))"

subsection \<open>TLS context and the SMTP session\<close>

datatype verify_mode = CERT_REQUIRED | CERT_NONE

text \<open>
  What determines an \<^verbatim>\<open>ssl.SSLContext\<close> here: the bundle it was created from
  (\<open>None\<close> is \<^verbatim>\<open>ssl.create_default_context()\<close>, the trust store of the platform) and the
  two verification settings.
\<close>

record ssl_context =
  ctx_cafile :: "string option"
  check_hostname :: bool
  verify :: verify_mode

definition create_default_context :: "string option \<Rightarrow> ssl_context" where
  "create_default_context cafile =
     \<lparr> ctx_cafile = cafile, check_hostname = True, verify = CERT_REQUIRED \<rparr>"

text \<open>
  \<^verbatim>\<open>_build_ssl_context\<close>; \<open>certifi\<close> is the module constant \<^verbatim>\<open>_CAFILE_DEFAULT\<close>:
  \<^verbatim>\<open>certifi.where()\<close>, or \<open>None\<close> when the package cannot be imported.
\<close>

definition build_ssl_context ::
  "environ \<Rightarrow> string option \<Rightarrow> string option \<Rightarrow> bool \<Rightarrow> ssl_context" where
  "build_ssl_context env certifi cafile insecure =
     (let cafile' = py_or (py_or (py_or cafile (env ''MAIL_SSL_CAFILE'')) (env ''SSL_CERT_FILE''))
                      certifi;
          ctx = (if truthy cafile' then create_default_context cafile'
                 else create_default_context None)
      in if insecure then ctx\<lparr>check_hostname := False, verify := CERT_NONE\<rparr> else ctx)"

text \<open>
  The calls that \<^verbatim>\<open>send_smtp\<close> makes on \<^verbatim>\<open>smtplib\<close>. The network decides whether a
  call raises; leaving the \<^verbatim>\<open>with\<close> block quits the session, also after an error, and
  an exception of the quit replaces the one of the block.
\<close>

datatype smtp_call =
    SMTP_SSL string int ssl_context
  | SMTP string int
  | Ehlo
  | Starttls ssl_context
  | Login string string
  | Send_message message "string list"
  | Quit

type_synonym network = "smtp_call \<Rightarrow> error option"

fun run_calls :: "network \<Rightarrow> smtp_call list \<Rightarrow> smtp_call list \<times> error option" where
  "run_calls net [] = ([], None)"
| "run_calls net (c # cs) =
     (case net c of
        Some e \<Rightarrow> ([c], Some e)
      | None \<Rightarrow> (case run_calls net cs of (done, r) \<Rightarrow> (c # done, r)))"

definition with_server ::
  "network \<Rightarrow> smtp_call \<Rightarrow> smtp_call list \<Rightarrow> smtp_call list \<times> error option" where
  "with_server net opening body =
     (case net opening of
        Some e \<Rightarrow> ([opening], Some e)
      | None \<Rightarrow>
          (case run_calls net body of
             (done, r) \<Rightarrow>
               (opening # done @ [Quit], case net Quit of Some e \<Rightarrow> Some e | None \<Rightarrow> r)))"

text \<open>
  \<^verbatim>\<open>send_smtp\<close> returns the calls it made, in order, and the exception it ended with,
  if any.
\<close>

definition send_smtp ::
  "environ \<Rightarrow> string option \<Rightarrow> network \<Rightarrow> message \<Rightarrow> string \<Rightarrow> string \<Rightarrow> string \<Rightarrow> int
     \<Rightarrow> string \<Rightarrow> string option \<Rightarrow> bool \<Rightarrow> smtp_call list \<times> error option" where
  "send_smtp env certifi net msg user password host port encryption cafile insecure =
     (let recipients = or_nil (all_recipients msg) in
      if recipients = []
      then ([], Some (ValueError ''Nessun destinatario (To/Cc/Bcc) indicato.''))
      else
        (let encryption' = lower (or_str (Some encryption) ''tls'');
             context = build_ssl_context env certifi cafile insecure;
             login = (if user \<noteq> [] then [Login user password] else [])
         in if encryption' = ''ssl''
            then with_server net (SMTP_SSL host port context)
                   (login @ [Send_message msg recipients])
            else with_server net (SMTP host port)
                   ([Ehlo]
                    @ (if encryption' = ''tls'' then [Starttls context, Ehlo] else [])
                    @ login @ [Send_message msg recipients])))"

subsection \<open>Notions used in the statements\<close>

text \<open>The part that one pass of the attachment loop adds for the path \<open>f\<close>.\<close>

definition attachment_part :: "filesystem \<Rightarrow> guess_type \<Rightarrow> string \<Rightarrow> mime" where
  "attachment_part fs guess f =
     (let p = Path f in
      case guess_mime_type guess p of
        (maintype, subtype) \<Rightarrow> File_part (read_bytes fs p) maintype subtype (path_name p))"

text \<open>The content of the message when the body block of \<^verbatim>\<open>build_message\<close> is done.\<close>

definition message_content :: "string \<Rightarrow> string option \<Rightarrow> mime" where
  "message_content text html =
     (case html of
        None \<Rightarrow> Text_part ''plain'' text
      | Some h \<Rightarrow>
          if h = [] then Text_part ''plain'' text
          else Multipart ''alternative'' [Text_part ''plain'' text, Text_part ''html'' h])"

text \<open>
  \<^verbatim>\<open>str.splitlines\<close> on ASCII: a line ends at a line feed, a carriage return (with the
  line feed that follows it, if any), a vertical tab, a form feed, or one of the
  separators 28 to 30.
\<close>

definition is_linebreak :: "char \<Rightarrow> bool" where
  "is_linebreak c = ((of_char c :: nat) \<in> set [10, 11, 12, 13, 28, 29, 30])"

fun splitlines_from :: "string \<Rightarrow> string \<Rightarrow> string list" where
  "splitlines_from line [] = (if line = [] then [] else [line])"
| "splitlines_from line [c] = (if is_linebreak c then [line] else [line @ [c]])"
| "splitlines_from line (c # d # cs) =
     (if c = CHR 0x0D \<and> d = CHR 0x0A then line # splitlines_from [] cs
      else if is_linebreak c then line # splitlines_from [] (d # cs)
      else splitlines_from (line @ [c]) (d # cs))"

definition splitlines :: "string \<Rightarrow> string list" where
  "splitlines s = splitlines_from [] s"

text \<open>
  A library for the examples. On a header it makes the test that
  \<^verbatim>\<open>EmailPolicy.header_store_parse\<close> makes before it parses the value,
  \<^verbatim>\<open>len(value.splitlines()) > 1\<close>, and no other; it creates every part.
\<close>

definition header_store_parse :: "string \<Rightarrow> string \<Rightarrow> error option" where
  "header_store_parse name v =
     (if 1 < length (splitlines v)
      then Some (ValueError
             ''Header values may not contain linefeed or carriage return characters'')
      else None)"

definition example_library :: library where
  "example_library = \<lparr> store_header = header_store_parse, store_part = (\<lambda>part. None) \<rparr>"

text \<open>A command line that gives \<^verbatim>\<open>--to\<close> and \<^verbatim>\<open>--subject\<close> only, and its namespace.\<close>

definition bare_command_line :: "string list \<Rightarrow> string \<Rightarrow> raw_args" where
  "bare_command_line to subject =
     \<lparr> r_to = to, r_cc = [], r_bcc = [], r_subject = Some subject, r_text = None,
       r_html = None, r_attachments = [], r_reply_to = None, r_from_address = None,
       r_from_name = None, r_user = None, r_password = None, r_host = None, r_port = None,
       r_encryption = None, r_cafile = None, r_insecure = False, r_dry_run = False \<rparr>"

definition no_flags :: "string list \<Rightarrow> string \<Rightarrow> args" where
  "no_flags to subject =
     \<lparr> a_to = to, a_cc = None, a_bcc = None, a_subject = subject, a_text = [],
       a_html = None, a_attachments = None, a_reply_to = None, a_from_address = None,
       a_from_name = None, a_user = None, a_password = None, a_host = None, a_port = None,
       a_encryption = None, a_cafile = None, a_insecure = False, a_dry_run = False \<rparr>"

section \<open>Properties\<close>

subsection \<open>Configuration resolution\<close>

lemmas int_defs = py_int_def is_space_def is_digit_def digit_val_def max_str_digits_def

lemma parse_bare_command_line:
  "to \<noteq> [] \<Longrightarrow> parse_args (bare_command_line to subject) = Inr (no_flags to subject)"
  by (simp add: parse_args_def bare_command_line_def no_flags_def appended_def)

lemma py_int_default_port: "py_int (MAIL_PORT (YAHOO_DEFAULTS env)) = Inr 587"
  by (simp add: YAHOO_DEFAULTS_def int_defs)

lemma fallbacks_Inr:
  "fallbacks env tr0 =
     Inr \<lparr> t_user = t_user tr0,
           t_password = t_password tr0,
           t_host = (if t_host tr0 = [] then ''smtp.mail.yahoo.com'' else t_host tr0),
           t_port = (if t_port tr0 = 0 then 587 else t_port tr0),
           t_encryption =
             (if t_encryption tr0 \<in> encryption_modes then t_encryption tr0 else ''tls''),
           t_from_name = t_from_name tr0,
           t_from_address =
             (if t_from_address tr0 = [] then t_user tr0 else t_from_address tr0),
           t_cafile = t_cafile tr0,
           t_insecure = t_insecure tr0 \<rparr>"
  by (simp add: fallbacks_def py_int_default_port Let_def) (simp add: YAHOO_DEFAULTS_def)

lemma resolve_config_Inr:
  assumes "load_transport_from_env env = Inr env_cfg"
  shows "resolve_config env args =
     (let tr0 = cli_overrides args env_cfg;
          tr = \<lparr> t_user = t_user tr0,
                 t_password = t_password tr0,
                 t_host = (if t_host tr0 = [] then ''smtp.mail.yahoo.com'' else t_host tr0),
                 t_port = (if t_port tr0 = 0 then 587 else t_port tr0),
                 t_encryption =
                   (if t_encryption tr0 \<in> encryption_modes then t_encryption tr0 else ''tls''),
                 t_from_name = t_from_name tr0,
                 t_from_address =
                   (if t_from_address tr0 = [] then t_user tr0 else t_from_address tr0),
                 t_cafile = t_cafile tr0,
                 t_insecure = t_insecure tr0 \<rparr>
      in Inr (tr, \<lparr> m_from_address = t_from_address tr, m_from_name = t_from_name tr \<rparr>))"
  using assms by (simp add: resolve_config_def fallbacks_Inr Let_def)

lemma env_port_cases:
  "env_port env =
     (case env ''MAIL_PORT'' of
        None \<Rightarrow> Inr 587
      | Some s \<Rightarrow> if s = [] then Inr 587 else py_int s)"
  using py_int_default_port [of env]
  by (simp add: env_port_def env_get_def YAHOO_DEFAULTS_def split: option.splits)

lemma load_Inl: "env_port env = Inl e \<Longrightarrow> load_transport_from_env env = Inl e"
  by (simp add: load_transport_from_env_def Let_def)

lemma load_Inr_encryption:
  assumes "env_port env = Inr p"
  shows "\<exists>cfg. load_transport_from_env env = Inr cfg \<and> c_port cfg = p \<and>
     c_encryption cfg =
       (case env ''MAIL_ENCRYPTION'' of
          None \<Rightarrow> ''tls''
        | Some s \<Rightarrow> if s = [] \<or> lower s \<notin> encryption_modes then ''tls'' else lower s)"
  using assms
  by (auto simp add: load_transport_from_env_def Let_def env_get_def or_str_def
      YAHOO_DEFAULTS_def encryption_modes_def lower_def lower_char_def split: option.splits)

lemma load_example:
  "load_transport_from_env [''MAIL_USER'' \<mapsto> ''env@x.com'', ''MAIL_HOST'' \<mapsto> ''smtp.x.com''] =
     Inr \<lparr> c_provider = ''smtp'', c_user = ''env@x.com'', c_password = [],
           c_host = ''smtp.x.com'', c_port = 587, c_encryption = ''tls'', c_from_name = [],
           c_from_address = ''antonio.trento@yahoo.com'' \<rparr>"
  by (simp add: load_transport_from_env_def env_port_def env_get_def YAHOO_DEFAULTS_def
      getenv_default_def or_str_def lower_def lower_char_def encryption_modes_def
      int_defs Let_def)

lemma invalid_literal_is: "\<exists>t. invalid_literal s = ValueError t"
  by (simp add: invalid_literal_def)

lemma exceeds_limit_is: "\<exists>t. exceeds_limit n = ValueError t"
  by (simp add: exceeds_limit_def)

lemma py_int_error:
  assumes "py_int s = Inl e"
  shows "\<exists>t. e = ValueError t"
proof -
  obtain negative u where u: "(case dropWhile is_space s of
              [] \<Rightarrow> (False, [])
            | c # cs \<Rightarrow>
                if c = CHR ''-'' then (True, cs)
                else if c = CHR ''+'' then (False, cs)
                else (False, c # cs)) = (negative, u)"
    by (rule prod.exhaust)
  have "e = invalid_literal s \<or> (\<exists>n. e = exceeds_limit n)"
  proof (cases "scan_digits 0 0 False u")
    case None
    with assms u show ?thesis
      by (simp add: py_int_def split: if_splits)
  next
    case (Some r)
    obtain v n rest where r: "r = (v, n, rest)" by (cases r)
    from assms u Some r show ?thesis
      by (simp add: py_int_def split: if_splits) blast
  qed
  with invalid_literal_is [of s] exceeds_limit_is show ?thesis by metis
qed

lemma py_int_separators:
  "py_int [CHR 0x1C, CHR ''2'', CHR ''5'', CHR 0x1F] =
     Inl (ValueError (''invalid literal for int() with base 10: '' @ [CHR 0x27, CHR 0x5C]
            @ ''x1c25'' @ [CHR 0x5C] @ ''x1f'' @ [CHR 0x27]))"
  by (simp add: int_defs invalid_literal_def repr_def repr_char_def hex_digit_def Let_def)

text \<open>
  Claim C2, as amended. When the port variable converts, resolution succeeds whatever the
  encryption input is, and the resolved mode is: a command-line value, kept if it is one of
  \<^verbatim>\<open>tls\<close>, \<^verbatim>\<open>ssl\<close>, \<^verbatim>\<open>none\<close> and replaced by \<^verbatim>\<open>tls\<close> otherwise; without a
  command-line value, \<^verbatim>\<open>tls\<close> when the environment variable is unset, empty, or has a
  lower-cased form outside the three modes, and the lower-cased environment value
  otherwise.
\<close>

theorem C2_encryption_resolution:
  assumes "env_port env = Inr p"
  shows "\<exists>tr mc. resolve_config env args = Inr (tr, mc) \<and>
     t_encryption tr =
       (case a_encryption args of
          Some s \<Rightarrow> if s \<in> {''tls'', ''ssl'', ''none''} then s else ''tls''
        | None \<Rightarrow>
            (case env ''MAIL_ENCRYPTION'' of
               None \<Rightarrow> ''tls''
             | Some s \<Rightarrow>
                 if s = [] \<or> lower s \<notin> {''tls'', ''ssl'', ''none''} then ''tls''
                 else lower s))"
proof -
  from load_Inr_encryption [OF assms] obtain cfg where
    l: "load_transport_from_env env = Inr cfg" and
    e: "c_encryption cfg =
       (case env ''MAIL_ENCRYPTION'' of
          None \<Rightarrow> ''tls''
        | Some s \<Rightarrow> if s = [] \<or> lower s \<notin> encryption_modes then ''tls'' else lower s)"
    by blast
  show ?thesis
    by (simp add: resolve_config_Inr [OF l] Let_def cli_overrides_def if_not_None_def e)
       (auto simp add: encryption_modes_def split: option.splits)
qed

text \<open>
  The amended claim C2 at an environment with \<^verbatim>\<open>MAIL_ENCRYPTION=starttls\<close> and
  \<^verbatim>\<open>MAIL_PORT=2525\<close>: the mode is \<^verbatim>\<open>tls\<close>.
\<close>

theorem C2_encryption_resolution_witness:
  "\<exists>tr mc. resolve_config [''MAIL_ENCRYPTION'' \<mapsto> ''starttls'', ''MAIL_PORT'' \<mapsto> ''2525'']
       (no_flags [''a@x.com''] ''Hi'') = Inr (tr, mc) \<and> t_encryption tr = ''tls''"
proof -
  have p: "env_port [''MAIL_ENCRYPTION'' \<mapsto> ''starttls'', ''MAIL_PORT'' \<mapsto> ''2525''] = Inr 2525"
    by (simp add: env_port_def env_get_def YAHOO_DEFAULTS_def int_defs)
  show ?thesis
    using C2_encryption_resolution [OF p, of "no_flags [''a@x.com''] ''Hi''"]
    by (simp add: no_flags_def lower_def lower_char_def)
qed

text \<open>
  Claim C2 as stated fails: the string \<^verbatim>\<open>SSL\<close> is none of the three strings of the set,
  and with \<^verbatim>\<open>MAIL_ENCRYPTION=SSL\<close> the resolved mode is \<^verbatim>\<open>ssl\<close>, not \<^verbatim>\<open>tls\<close>.
\<close>

theorem C2_uppercase_counterexample:
  "''SSL'' \<notin> {''tls'', ''ssl'', ''none''} \<and>
   resolve_config [''MAIL_ENCRYPTION'' \<mapsto> ''SSL''] (no_flags [''a@x.com''] ''Hi'') =
     Inr (\<lparr> t_user = ''antonio.trento@yahoo.com'', t_password = [],
            t_host = ''smtp.mail.yahoo.com'', t_port = 587, t_encryption = ''ssl'',
            t_from_name = [], t_from_address = ''antonio.trento@yahoo.com'',
            t_cafile = None, t_insecure = False \<rparr>,
          \<lparr> m_from_address = ''antonio.trento@yahoo.com'', m_from_name = [] \<rparr>)"
  by (simp add: resolve_config_def load_transport_from_env_def env_port_def env_get_def
      YAHOO_DEFAULTS_def getenv_default_def or_str_def lower_def lower_char_def
      encryption_modes_def fallbacks_def cli_overrides_def if_not_None_def no_flags_def
      int_defs Let_def)

text \<open>
  Claim C3, as amended. When the environment loads, resolution succeeds, and for each
  setting the command-line value, if given, and the environment-derived value otherwise, is
  the resolved value: always for user, password and sender name; for the host and the
  sender address when that value is not empty; for the port when it is not zero; for the
  encryption when it is one of the three modes.
\<close>

theorem C3_override_precedence:
  assumes "load_transport_from_env env = Inr env_cfg"
  shows "\<exists>tr mc. resolve_config env args = Inr (tr, mc) \<and>
     t_user tr = (case a_user args of Some v \<Rightarrow> v | None \<Rightarrow> c_user env_cfg) \<and>
     t_password tr = (case a_password args of Some v \<Rightarrow> v | None \<Rightarrow> c_password env_cfg) \<and>
     t_from_name tr = (case a_from_name args of Some v \<Rightarrow> v | None \<Rightarrow> c_from_name env_cfg) \<and>
     (let host = (case a_host args of Some v \<Rightarrow> v | None \<Rightarrow> c_host env_cfg)
      in host \<noteq> [] \<longrightarrow> t_host tr = host) \<and>
     (let port = (case a_port args of Some v \<Rightarrow> v | None \<Rightarrow> c_port env_cfg)
      in port \<noteq> 0 \<longrightarrow> t_port tr = port) \<and>
     (let enc = (case a_encryption args of Some v \<Rightarrow> v | None \<Rightarrow> c_encryption env_cfg)
      in enc \<in> {''tls'', ''ssl'', ''none''} \<longrightarrow> t_encryption tr = enc) \<and>
     (let addr = (case a_from_address args of Some v \<Rightarrow> v | None \<Rightarrow> c_from_address env_cfg)
      in addr \<noteq> [] \<longrightarrow> t_from_address tr = addr)"
  by (simp add: resolve_config_Inr [OF assms] Let_def cli_overrides_def if_not_None_def
      encryption_modes_def)

text \<open>
  The amended claim C3 with \<^verbatim>\<open>MAIL_USER\<close> and \<^verbatim>\<open>MAIL_HOST\<close> in the environment and
  \<^verbatim>\<open>--user cli@x.com --port 465 --encryption ssl\<close> on the command line.
\<close>

theorem C3_override_precedence_witness:
  "\<exists>tr mc. resolve_config [''MAIL_USER'' \<mapsto> ''env@x.com'', ''MAIL_HOST'' \<mapsto> ''smtp.x.com'']
       ((no_flags [''a@x.com''] ''Hi'')
          \<lparr>a_user := Some ''cli@x.com'', a_port := Some 465, a_encryption := Some ''ssl''\<rparr>) =
       Inr (tr, mc) \<and>
     t_user tr = ''cli@x.com'' \<and> t_password tr = [] \<and> t_from_name tr = [] \<and>
     t_host tr = ''smtp.x.com'' \<and> t_port tr = 465 \<and> t_encryption tr = ''ssl'' \<and>
     t_from_address tr = ''antonio.trento@yahoo.com''"
  using C3_override_precedence [OF load_example, of "(no_flags [''a@x.com''] ''Hi'')
          \<lparr>a_user := Some ''cli@x.com'', a_port := Some 465, a_encryption := Some ''ssl''\<rparr>"]
  by (simp add: no_flags_def)

text \<open>
  Claim C3 as stated fails: with \<^verbatim>\<open>--port 0\<close> given on the command line the resolved port
  is 587, not the value given.
\<close>

theorem C3_port_zero_counterexample:
  "resolve_config Map.empty ((no_flags [''a@x.com''] ''Hi'')\<lparr>a_port := Some 0\<rparr>) =
     Inr (\<lparr> t_user = ''antonio.trento@yahoo.com'', t_password = [],
            t_host = ''smtp.mail.yahoo.com'', t_port = 587, t_encryption = ''tls'',
            t_from_name = [], t_from_address = ''antonio.trento@yahoo.com'',
            t_cafile = None, t_insecure = False \<rparr>,
          \<lparr> m_from_address = ''antonio.trento@yahoo.com'', m_from_name = [] \<rparr>)"
  by (simp add: resolve_config_def load_transport_from_env_def env_port_def env_get_def
      YAHOO_DEFAULTS_def getenv_default_def or_str_def lower_def lower_char_def
      encryption_modes_def fallbacks_def cli_overrides_def if_not_None_def no_flags_def
      int_defs Let_def)

text \<open>
  Claim C6. When the environment loads, resolution succeeds, and on the settings merged from
  command line and environment it replaces an empty sender address by the merged user name,
  an empty host by \<^verbatim>\<open>smtp.mail.yahoo.com\<close> and a zero port by 587; the sender address,
  host and port are unchanged otherwise, and user, password, sender name, bundle path and
  the insecure switch are always unchanged. The sender identity returned beside the
  transport carries the resolved address and name.
\<close>

theorem C6_fallbacks:
  assumes "load_transport_from_env env = Inr env_cfg"
  shows "\<exists>tr mc. resolve_config env args = Inr (tr, mc) \<and>
     (let merged = cli_overrides args env_cfg in
      t_from_address tr =
        (if t_from_address merged = [] then t_user merged else t_from_address merged) \<and>
      t_host tr = (if t_host merged = [] then ''smtp.mail.yahoo.com'' else t_host merged) \<and>
      t_port tr = (if t_port merged = 0 then 587 else t_port merged) \<and>
      t_user tr = t_user merged \<and> t_password tr = t_password merged \<and>
      t_from_name tr = t_from_name merged \<and> t_cafile tr = t_cafile merged \<and>
      t_insecure tr = t_insecure merged \<and>
      mc = \<lparr> m_from_address = t_from_address tr, m_from_name = t_from_name tr \<rparr>)"
  by (simp add: resolve_config_Inr [OF assms] Let_def)

text \<open>
  Claim C6 with \<^verbatim>\<open>--from-address "" --host "" --port 0\<close>: all three fallbacks apply.
\<close>

theorem C6_fallbacks_witness:
  "\<exists>tr mc. resolve_config [''MAIL_USER'' \<mapsto> ''env@x.com'', ''MAIL_HOST'' \<mapsto> ''smtp.x.com'']
       ((no_flags [''a@x.com''] ''Hi'')
          \<lparr>a_from_address := Some [], a_host := Some [], a_port := Some 0\<rparr>) = Inr (tr, mc) \<and>
     t_from_address tr = ''env@x.com'' \<and> t_host tr = ''smtp.mail.yahoo.com'' \<and>
     t_port tr = 587 \<and> m_from_address mc = ''env@x.com''"
  using C6_fallbacks [OF load_example, of "(no_flags [''a@x.com''] ''Hi'')
          \<lparr>a_from_address := Some [], a_host := Some [], a_port := Some 0\<rparr>"]
  by (auto simp add: no_flags_def cli_overrides_def if_not_None_def Let_def)

text \<open>
  Claim C9. When \<^verbatim>\<open>MAIL_PORT\<close> is set to a non-empty string on which \<^verbatim>\<open>int\<close> raises,
  loading the environment raises that exception, a \<^verbatim>\<open>ValueError\<close>, and so does
  configuration resolution, whatever the command line holds: no default port is
  substituted.
\<close>

theorem C9_invalid_port:
  assumes "env ''MAIL_PORT'' = Some s" and "s \<noteq> []" and "py_int s = Inl e"
  shows "load_transport_from_env env = Inl e \<and> resolve_config env args = Inl e \<and>
         (\<exists>t. e = ValueError t)"
proof -
  have "env_port env = Inl e"
    using assms by (simp add: env_port_cases)
  then have "load_transport_from_env env = Inl e"
    by (rule load_Inl)
  with py_int_error [OF assms(3)] show ?thesis by (simp add: resolve_config_def)
qed

text \<open>
  Claim C9 with \<^verbatim>\<open>MAIL_PORT=58x7\<close>: resolution raises even though \<^verbatim>\<open>--port 465\<close> is
  given.
\<close>

theorem C9_invalid_port_witness:
  "resolve_config [''MAIL_PORT'' \<mapsto> ''58x7'']
     ((no_flags [''a@x.com''] ''Hi'')\<lparr>a_port := Some 465\<rparr>) =
     Inl (ValueError (''invalid literal for int() with base 10: '' @ [CHR 0x27] @ ''58x7''
            @ [CHR 0x27]))"
proof -
  have "py_int ''58x7'' = Inl (ValueError (''invalid literal for int() with base 10: ''
      @ [CHR 0x27] @ ''58x7'' @ [CHR 0x27]))"
    by (simp add: int_defs invalid_literal_def repr_def repr_char_def Let_def)
  then show ?thesis
    using C9_invalid_port [of "[''MAIL_PORT'' \<mapsto> ''58x7'']" "''58x7''" _
        "(no_flags [''a@x.com''] ''Hi'')\<lparr>a_port := Some 465\<rparr>"]
    by simp
qed

text \<open>
  Claim C10. A value given for \<^verbatim>\<open>--encryption\<close> that is not one of \<^verbatim>\<open>tls\<close>, \<^verbatim>\<open>ssl\<close>,
  \<^verbatim>\<open>none\<close> makes argument parsing exit with the parse error; and when parsing succeeds with
  a value for the flag, that value is one of the three and configuration resolution returns
  it as the mode, unchanged: the replacement by \<^verbatim>\<open>tls\<close> never acts on a command-line value.
\<close>

theorem C10_cli_encryption_choices:
  "(r_encryption r = Some s \<and> s \<notin> {''tls'', ''ssl'', ''none''} \<longrightarrow>
      parse_args r = Inl (SystemExit 2)) \<and>
   (parse_args r' = Inr args \<and> a_encryption args = Some s' \<and>
      resolve_config env args = Inr (tr, mc) \<longrightarrow>
      s' \<in> {''tls'', ''ssl'', ''none''} \<and> t_encryption tr = s')"
proof (rule conjI)
  show "r_encryption r = Some s \<and> s \<notin> {''tls'', ''ssl'', ''none''} \<longrightarrow>
      parse_args r = Inl (SystemExit 2)"
    by (simp add: parse_args_def encryption_choices_def)
next
  show "parse_args r' = Inr args \<and> a_encryption args = Some s' \<and>
      resolve_config env args = Inr (tr, mc) \<longrightarrow>
      s' \<in> {''tls'', ''ssl'', ''none''} \<and> t_encryption tr = s'"
  proof
    assume a: "parse_args r' = Inr args \<and> a_encryption args = Some s' \<and>
      resolve_config env args = Inr (tr, mc)"
    then have s: "s' \<in> {''tls'', ''ssl'', ''none''}"
      by (auto simp add: parse_args_def encryption_choices_def split: if_splits option.splits)
    from a obtain env_cfg where l: "load_transport_from_env env = Inr env_cfg"
      by (cases "load_transport_from_env env") (simp_all add: resolve_config_def)
    from a s show "s' \<in> {''tls'', ''ssl'', ''none''} \<and> t_encryption tr = s'"
      by (auto simp add: resolve_config_Inr [OF l] Let_def cli_overrides_def if_not_None_def
          encryption_modes_def)
  qed
qed

text \<open>
  Claim C10 on two command lines: \<^verbatim>\<open>--encryption TLS\<close> is refused by the parser, and
  \<^verbatim>\<open>--encryption ssl\<close> is parsed and resolved to \<^verbatim>\<open>ssl\<close>.
\<close>

theorem C10_cli_encryption_choices_witness:
  "parse_args ((bare_command_line [''a@x.com''] ''Hi'')\<lparr>r_encryption := Some ''TLS''\<rparr>) =
     Inl (SystemExit 2) \<and>
   parse_args ((bare_command_line [''a@x.com''] ''Hi'')\<lparr>r_encryption := Some ''ssl''\<rparr>) =
     Inr ((no_flags [''a@x.com''] ''Hi'')\<lparr>a_encryption := Some ''ssl''\<rparr>) \<and>
   resolve_config Map.empty ((no_flags [''a@x.com''] ''Hi'')\<lparr>a_encryption := Some ''ssl''\<rparr>) =
     Inr (\<lparr> t_user = ''antonio.trento@yahoo.com'', t_password = [],
            t_host = ''smtp.mail.yahoo.com'', t_port = 587, t_encryption = ''ssl'',
            t_from_name = [], t_from_address = ''antonio.trento@yahoo.com'',
            t_cafile = None, t_insecure = False \<rparr>,
          \<lparr> m_from_address = ''antonio.trento@yahoo.com'', m_from_name = [] \<rparr>)"
proof -
  let ?tr = "\<lparr> t_user = ''antonio.trento@yahoo.com'', t_password = [],
            t_host = ''smtp.mail.yahoo.com'', t_port = 587, t_encryption = ''ssl'',
            t_from_name = [], t_from_address = ''antonio.trento@yahoo.com'',
            t_cafile = None, t_insecure = False \<rparr>"
  let ?mc = "\<lparr> m_from_address = ''antonio.trento@yahoo.com'', m_from_name = [] \<rparr>"
  have p: "parse_args ((bare_command_line [''a@x.com''] ''Hi'')\<lparr>r_encryption := Some ''ssl''\<rparr>) =
     Inr ((no_flags [''a@x.com''] ''Hi'')\<lparr>a_encryption := Some ''ssl''\<rparr>)"
    by (simp add: parse_args_def bare_command_line_def no_flags_def appended_def
        encryption_choices_def)
  have r: "resolve_config Map.empty
      ((no_flags [''a@x.com''] ''Hi'')\<lparr>a_encryption := Some ''ssl''\<rparr>) = Inr (?tr, ?mc)"
    by (simp add: resolve_config_def load_transport_from_env_def env_port_def env_get_def
      YAHOO_DEFAULTS_def getenv_default_def or_str_def lower_def lower_char_def
      encryption_modes_def fallbacks_def cli_overrides_def if_not_None_def no_flags_def
      int_defs Let_def)
  from C10_cli_encryption_choices [of
      "(bare_command_line [''a@x.com''] ''Hi'')\<lparr>r_encryption := Some ''TLS''\<rparr>" "''TLS''"
      "(bare_command_line [''a@x.com''] ''Hi'')\<lparr>r_encryption := Some ''ssl''\<rparr>"
      "(no_flags [''a@x.com''] ''Hi'')\<lparr>a_encryption := Some ''ssl''\<rparr>" "''ssl''"
      Map.empty ?tr ?mc] p r
  show ?thesis by (simp add: bare_command_line_def)
qed

subsection \<open>Message assembly\<close>

lemma and_then_Inr:
  "and_then r f = Inr y \<longleftrightarrow> (\<exists>x. r = Inr x \<and> f x = Inr y)"
  by (cases r) (simp_all add: and_then_def)

lemma and_then_simps:
  "and_then (Inl e) f = Inl e"
  "and_then (Inr x) f = f x"
  by (simp_all add: and_then_def)

lemma set_header_Inr:
  "set_header lib msg name v = Inr m \<Longrightarrow> m = msg\<lparr>headers := headers msg @ [(name, v)]\<rparr>"
  by (auto simp add: set_header_def split: option.splits)

lemma message_headers_Inr:
  assumes "message_headers lib fa fn to subj cc rt EmailMessage = Inr m"
  shows "headers m =
     [(''From'', if fn \<noteq> [] then formataddr fn fa else fa), (''To'', join '', '' to)]
     @ (case cc of Some (c # cs) \<Rightarrow> [(''Cc'', join '', '' (c # cs))] | _ \<Rightarrow> [])
     @ [(''Subject'', subj)]
     @ (if truthy rt then [(''Reply-To'', or_str rt [])] else [])"
    and "payload m = None" and "all_recipients m = None"
proof -
  let ?from = "if fn \<noteq> [] then formataddr fn fa else fa"
  from assms obtain m1 m2 m3 m4 where
    1: "set_header lib EmailMessage ''From'' ?from = Inr m1" and
    2: "set_header lib m1 ''To'' (join '', '' to) = Inr m2" and
    3: "(case cc of
           Some (c # cs) \<Rightarrow> set_header lib m2 ''Cc'' (join '', '' (c # cs))
         | _ \<Rightarrow> Inr m2) = Inr m3" and
    4: "set_header lib m3 ''Subject'' subj = Inr m4" and
    5: "(if truthy rt then set_header lib m4 ''Reply-To'' (or_str rt []) else Inr m4) = Inr m"
    unfolding message_headers_def Let_def and_then_Inr by blast
  have m1: "m1 = EmailMessage\<lparr>headers := [(''From'', ?from)]\<rparr>"
    using set_header_Inr [OF 1] by (simp add: EmailMessage_def)
  have m2: "m2 = m1\<lparr>headers := headers m1 @ [(''To'', join '', '' to)]\<rparr>"
    by (rule set_header_Inr [OF 2])
  have m3: "m3 = m2\<lparr>headers := headers m2
      @ (case cc of Some (c # cs) \<Rightarrow> [(''Cc'', join '', '' (c # cs))] | _ \<Rightarrow> [])\<rparr>"
  proof (cases cc)
    case None
    with 3 show ?thesis by simp
  next
    case (Some xs)
    show ?thesis
    proof (cases xs)
      case Nil
      with 3 Some show ?thesis by simp
    next
      case (Cons c cs)
      with 3 Some set_header_Inr [of lib m2 "''Cc''" "join '', '' (c # cs)" m3]
      show ?thesis by simp
    qed
  qed
  have m4: "m4 = m3\<lparr>headers := headers m3 @ [(''Subject'', subj)]\<rparr>"
    by (rule set_header_Inr [OF 4])
  have m: "m = m4\<lparr>headers := headers m4
      @ (if truthy rt then [(''Reply-To'', or_str rt [])] else [])\<rparr>"
  proof (cases "truthy rt")
    case True
    with 5 set_header_Inr [of lib m4 "''Reply-To''" "or_str rt []" m] show ?thesis by simp
  next
    case False
    with 5 show ?thesis by simp
  qed
  show "headers m =
     [(''From'', ?from), (''To'', join '', '' to)]
     @ (case cc of Some (c # cs) \<Rightarrow> [(''Cc'', join '', '' (c # cs))] | _ \<Rightarrow> [])
     @ [(''Subject'', subj)]
     @ (if truthy rt then [(''Reply-To'', or_str rt [])] else [])"
    by (simp add: m m4 m3 m2 m1)
  show "payload m = None"
    by (simp add: m m4 m3 m2 m1 EmailMessage_def)
  show "all_recipients m = None"
    by (simp add: m m4 m3 m2 m1 EmailMessage_def)
qed

lemma message_body_Inr:
  assumes "message_body lib text html msg = Inr m" and "payload msg = None"
  shows "m = msg\<lparr>payload := Some (message_content text html)\<rparr>"
  using assms
  by (auto simp add: message_body_def and_then_Inr set_content_def add_alternative_def
      add_multipart_def make_multipart_def message_content_def truthy_def or_str_def
      and_then_simps split: option.splits if_splits)

lemma add_attachment_Inr:
  assumes "add_attachment lib msg data maintype subtype filename = Inr m"
  shows "m = msg\<lparr>payload := Some
       (case payload msg of
          None \<Rightarrow> Multipart ''mixed'' [File_part data maintype subtype filename]
        | Some (Multipart s ps) \<Rightarrow>
            if s = ''mixed'' then Multipart s (ps @ [File_part data maintype subtype filename])
            else Multipart ''mixed'' [Multipart s ps, File_part data maintype subtype filename]
        | Some c \<Rightarrow> Multipart ''mixed'' [c, File_part data maintype subtype filename])\<rparr>"
  using assms
  by (auto simp add: add_attachment_def add_multipart_def make_multipart_def and_then_def
      split: option.splits mime.splits if_splits)

lemma attach_files_Cons_Inr:
  assumes "attach_files fs lib guess (f # rest) msg = Inr m"
  shows "\<not> missing fs (Path f) \<and>
     (\<exists>m'. m' = msg\<lparr>payload := Some
        (case payload msg of
           None \<Rightarrow> Multipart ''mixed'' [attachment_part fs guess f]
         | Some (Multipart s ps) \<Rightarrow>
             if s = ''mixed'' then Multipart s (ps @ [attachment_part fs guess f])
             else Multipart ''mixed'' [Multipart s ps, attachment_part fs guess f]
         | Some c \<Rightarrow> Multipart ''mixed'' [c, attachment_part fs guess f])\<rparr> \<and>
        attach_files fs lib guess rest m' = Inr m)"
proof -
  obtain mt st where g: "guess_mime_type guess (Path f) = (mt, st)"
    by (cases "guess_mime_type guess (Path f)")
  from assms have nm: "\<not> missing fs (Path f)"
    by (simp add: Let_def split: if_splits)
  with assms g obtain m' where
    a: "add_attachment lib msg (read_bytes fs (Path f)) mt st (path_name (Path f)) = Inr m'"
    and r: "attach_files fs lib guess rest m' = Inr m"
    by (auto simp add: Let_def and_then_Inr)
  have ap: "attachment_part fs guess f =
      File_part (read_bytes fs (Path f)) mt st (path_name (Path f))"
    using g by (simp add: attachment_part_def Let_def)
  from add_attachment_Inr [OF a] r nm show ?thesis
    unfolding ap by simp
qed

lemma attach_files_mixed:
  "attach_files fs lib guess paths msg = Inr m \<Longrightarrow>
   payload msg = Some (Multipart ''mixed'' ps) \<Longrightarrow>
     m = msg\<lparr>payload :=
              Some (Multipart ''mixed'' (ps @ map (attachment_part fs guess) paths))\<rparr>"
proof (induction paths arbitrary: msg ps)
  case Nil
  then show ?case by simp
next
  case (Cons f rest)
  let ?msg' = "msg\<lparr>payload := Some (Multipart ''mixed'' (ps @ [attachment_part fs guess f]))\<rparr>"
  from attach_files_Cons_Inr [OF Cons.prems(1)] Cons.prems(2)
  have r: "attach_files fs lib guess rest ?msg' = Inr m" by simp
  have "m = ?msg'\<lparr>payload := Some (Multipart ''mixed''
         ((ps @ [attachment_part fs guess f]) @ map (attachment_part fs guess) rest))\<rparr>"
    by (rule Cons.IH [OF r]) simp
  then show ?case by simp
qed

lemma attach_files_Inr:
  assumes "attach_files fs lib guess paths msg = Inr m" and "payload msg = Some body"
    and "\<forall>ps. body \<noteq> Multipart ''mixed'' ps"
  shows "m = msg\<lparr>payload := Some (if paths = [] then body
           else Multipart ''mixed'' (body # map (attachment_part fs guess) paths))\<rparr>"
proof (cases paths)
  case Nil
  with assms show ?thesis by simp
next
  case (Cons f rest)
  let ?msg' = "msg\<lparr>payload := Some (Multipart ''mixed'' [body, attachment_part fs guess f])\<rparr>"
  from attach_files_Cons_Inr [of fs lib guess f rest msg m] assms Cons
  have r: "attach_files fs lib guess rest ?msg' = Inr m"
    by (cases body) simp_all
  have "m = ?msg'\<lparr>payload := Some (Multipart ''mixed''
         ([body, attachment_part fs guess f] @ map (attachment_part fs guess) rest))\<rparr>"
    by (rule attach_files_mixed [OF r]) simp
  with Cons show ?thesis by simp
qed

text \<open>A message that \<^verbatim>\<open>build_message\<close> returns, in closed form.\<close>

lemma build_message_Inr:
  assumes "build_message fs lib guess fa fn to subj text html cc bcc rt atts = Inr m"
  shows "m = \<lparr> headers =
                  [(''From'', if fn \<noteq> [] then formataddr fn fa else fa),
                   (''To'', join '', '' to)]
                  @ (case cc of Some (c # cs) \<Rightarrow> [(''Cc'', join '', '' (c # cs))] | _ \<Rightarrow> [])
                  @ [(''Subject'', subj)]
                  @ (if truthy rt then [(''Reply-To'', or_str rt [])] else []),
                payload = Some (if or_nil atts = [] then message_content text html
                   else Multipart ''mixed''
                     (message_content text html # map (attachment_part fs guess) (or_nil atts))),
                all_recipients = Some (recipients_of to cc bcc) \<rparr>"
proof -
  from assms obtain m0 m1 m2 where
    h: "message_headers lib fa fn to subj cc rt EmailMessage = Inr m0" and
    b: "message_body lib text html m0 = Inr m1" and
    a: "attach_files fs lib guess (or_nil atts) m1 = Inr m2" and
    m: "m = m2\<lparr>all_recipients := Some (recipients_of to cc bcc)\<rparr>"
    by (auto simp add: build_message_def and_then_Inr)
  note hs = message_headers_Inr [OF h]
  have m1: "m1 = m0\<lparr>payload := Some (message_content text html)\<rparr>"
    by (rule message_body_Inr [OF b hs(2)])
  have nm: "\<forall>ps. message_content text html \<noteq> Multipart ''mixed'' ps"
    by (simp add: message_content_def split: option.splits)
  have "m2 = m1\<lparr>payload := Some (if or_nil atts = [] then message_content text html
           else Multipart ''mixed''
             (message_content text html # map (attachment_part fs guess) (or_nil atts)))\<rparr>"
    by (rule attach_files_Inr [OF a _ nm]) (simp add: m1)
  with m m1 hs show ?thesis by simp
qed



lemma recipients_of_set:
  "distinct (recipients_of to cc bcc) \<and>
   set (recipients_of to cc bcc) = set to \<union> set (or_nil cc) \<union> set (or_nil bcc)"
  by (auto simp add: recipients_of_def)

lemmas example_defs = example_library_def header_store_parse_def splitlines_def
  is_linebreak_def set_header_def set_content_def and_then_def

text \<open>
  Claim C1. The recipient list attached to a built message has no duplicates and holds
  exactly the addresses of To, Cc and Bcc; and \<^verbatim>\<open>send_smtp\<close> on a message whose recipient
  list is empty or absent ends with the no-recipients \<^verbatim>\<open>ValueError\<close> after no call on the
  network at all.
\<close>

theorem C1_delivery_recipients:
  "(\<forall>m. build_message fs lib guess from_address from_name to subject text html cc bcc
          reply_to attachments = Inr m \<longrightarrow>
      (\<exists>rs. all_recipients m = Some rs \<and> distinct rs \<and>
            set rs = set to \<union> set (or_nil cc) \<union> set (or_nil bcc))) \<and>
   (or_nil (all_recipients msg) = [] \<longrightarrow>
      send_smtp env certifi net msg user password host port encryption cafile insecure =
        ([], Some (ValueError ''Nessun destinatario (To/Cc/Bcc) indicato.'')))"
proof (rule conjI)
  show "\<forall>m. build_message fs lib guess from_address from_name to subject text html cc bcc
          reply_to attachments = Inr m \<longrightarrow>
      (\<exists>rs. all_recipients m = Some rs \<and> distinct rs \<and>
            set rs = set to \<union> set (or_nil cc) \<union> set (or_nil bcc))"
  proof (intro allI impI)
    fix m
    assume "build_message fs lib guess from_address from_name to subject text html cc bcc
          reply_to attachments = Inr m"
    from build_message_Inr [OF this] recipients_of_set [of to cc bcc]
    show "\<exists>rs. all_recipients m = Some rs \<and> distinct rs \<and>
            set rs = set to \<union> set (or_nil cc) \<union> set (or_nil bcc)"
      by simp
  qed
next
  show "or_nil (all_recipients msg) = [] \<longrightarrow>
      send_smtp env certifi net msg user password host port encryption cafile insecure =
        ([], Some (ValueError ''Nessun destinatario (To/Cc/Bcc) indicato.''))"
    by (simp add: send_smtp_def)
qed

text \<open>
  Claim C1 on a message with overlapping To, Cc and Bcc, and on sending a fresh message,
  which has no recipients.
\<close>

theorem C1_delivery_recipients_witness:
  "(\<exists>rs. map_sum id all_recipients
      (build_message Map.empty example_library (\<lambda>p. None) ''me@x.com'' []
         [''a@x.com'', ''b@x.com''] ''Hi'' ''Hello'' None (Some [''b@x.com'', ''c@x.com''])
         (Some [''a@x.com'', ''d@x.com'']) None None) = Inr (Some rs) \<and> distinct rs \<and>
      set rs = {''a@x.com'', ''b@x.com'', ''c@x.com'', ''d@x.com''}) \<and>
   send_smtp Map.empty None (\<lambda>c. None) EmailMessage ''u'' ''p'' ''smtp.example.org'' 465 ''ssl''
     None False = ([], Some (ValueError ''Nessun destinatario (To/Cc/Bcc) indicato.''))"
proof -
  obtain m where m: "build_message Map.empty example_library (\<lambda>p. None) ''me@x.com'' []
         [''a@x.com'', ''b@x.com''] ''Hi'' ''Hello'' None (Some [''b@x.com'', ''c@x.com''])
         (Some [''a@x.com'', ''d@x.com'']) None None = Inr m"
    by (simp add: build_message_def message_headers_def message_body_def EmailMessage_def
      example_defs truthy_def or_nil_def Let_def)
  have e: "or_nil (all_recipients EmailMessage) = []"
    by (simp add: EmailMessage_def or_nil_def)
  from C1_delivery_recipients [of Map.empty example_library "\<lambda>p. None" "''me@x.com''" "[]"
      "[''a@x.com'', ''b@x.com'']" "''Hi''" "''Hello''" None "Some [''b@x.com'', ''c@x.com'']"
      "Some [''a@x.com'', ''d@x.com'']" None None EmailMessage Map.empty None "\<lambda>c. None"
      "''u''" "''p''" "''smtp.example.org''" 465 "''ssl''" None False] m e
  show ?thesis
    by (auto simp add: or_nil_def)
qed




text \<open>
  Claim C5, as amended. In every built message the content apart from the attachments is:
  for a non-empty HTML body, a \<^verbatim>\<open>multipart/alternative\<close> of the plain text first and the
  HTML second; for no HTML body or an empty one, the plain-text part alone. Without
  attachments this is the whole content, with attachments it is the first part of a
  \<^verbatim>\<open>multipart/mixed\<close> that the attached files follow.
\<close>

theorem C5_body_parts:
  assumes "build_message fs lib guess from_address from_name to subject text html cc bcc
             reply_to attachments = Inr m"
  shows "\<exists>body. payload m =
           Some (if or_nil attachments = [] then body
                 else Multipart ''mixed''
                        (body # map (attachment_part fs guess) (or_nil attachments))) \<and>
         body = (case html of
                   None \<Rightarrow> Text_part ''plain'' text
                 | Some h \<Rightarrow>
                     if h = [] then Text_part ''plain'' text
                     else Multipart ''alternative''
                            [Text_part ''plain'' text, Text_part ''html'' h])"
  using build_message_Inr [OF assms]
  by (simp add: message_content_def)

text \<open>The amended claim C5 on a message with an HTML body and no attachment.\<close>

theorem C5_body_parts_witness:
  "map_sum id payload
     (build_message Map.empty example_library (\<lambda>p. None) ''me@x.com'' [] [''a@x.com''] ''Hi''
        ''Hello'' (Some ''<p>Hello</p>'') None None None None) =
   Inr (Some (Multipart ''alternative''
               [Text_part ''plain'' ''Hello'', Text_part ''html'' ''<p>Hello</p>'']))"
proof -
  obtain m where m: "build_message Map.empty example_library (\<lambda>p. None) ''me@x.com'' []
      [''a@x.com''] ''Hi'' ''Hello'' (Some ''<p>Hello</p>'') None None None None = Inr m"
    by (simp add: build_message_def message_headers_def message_body_def EmailMessage_def
        example_defs truthy_def or_nil_def Let_def add_alternative_def add_multipart_def
        make_multipart_def)
  from C5_body_parts [OF m] m show ?thesis
    by (simp add: or_nil_def)
qed

text \<open>
  Claim C5 as stated fails: an HTML body that is supplied as the empty string gives a
  message of the plain-text part alone, not a multipart one.
\<close>

theorem C5_empty_html_counterexample:
  "build_message Map.empty example_library (\<lambda>p. None) ''me@x.com'' [] [''a@x.com''] ''Hi''
     ''Hello'' (Some []) None None None None =
   Inr \<lparr> headers = [(''From'', ''me@x.com''), (''To'', ''a@x.com''), (''Subject'', ''Hi'')],
         payload = Some (Text_part ''plain'' ''Hello''),
         all_recipients = Some [''a@x.com''] \<rparr>"
  by (simp add: build_message_def message_headers_def message_body_def EmailMessage_def
      example_defs truthy_def or_nil_def recipients_of_def Let_def)

text \<open>
  Claim C7. The bundle of the context is the first source that is present, that is, set
  and not empty, in the order: the argument \<^verbatim>\<open>cafile\<close>, the environment variable
  \<^verbatim>\<open>MAIL_SSL_CAFILE\<close>, the environment variable \<^verbatim>\<open>SSL_CERT_FILE\<close>, the bundle of
  \<^verbatim>\<open>certifi\<close>; with none of them present, the context is built on the trust store of the
  platform.
\<close>

theorem C7_bundle_priority:
  "ctx_cafile (build_ssl_context env certifi cafile insecure) =
     (if truthy cafile then cafile
      else if truthy (env ''MAIL_SSL_CAFILE'') then env ''MAIL_SSL_CAFILE''
      else if truthy (env ''SSL_CERT_FILE'') then env ''SSL_CERT_FILE''
      else if truthy certifi then certifi
      else None)"
  by (simp add: build_ssl_context_def py_or_def create_default_context_def Let_def)

text \<open>
  Claim C7 with no argument, \<^verbatim>\<open>SSL_CERT_FILE\<close> set and \<^verbatim>\<open>certifi\<close> installed: the
  environment wins.
\<close>

theorem C7_bundle_priority_witness:
  "ctx_cafile (build_ssl_context [''SSL_CERT_FILE'' \<mapsto> ''/etc/ssl/cert.pem'']
      (Some ''/site/certifi/cacert.pem'') None False) = Some ''/etc/ssl/cert.pem''"
  using C7_bundle_priority [of "[''SSL_CERT_FILE'' \<mapsto> ''/etc/ssl/cert.pem'']"
      "Some ''/site/certifi/cacert.pem''" None False]
  by (simp add: truthy_def)

text \<open>
  Claim C8. The Bcc list has no influence on what \<^verbatim>\<open>build_message\<close> returns apart from
  the attached recipient list: with any other Bcc list the outcome is the same error, or a
  message with the same headers and the same content; and the headers of a built message
  bear no other names than From, To, Cc, Subject and Reply-To.
\<close>

theorem C8_bcc_only_in_recipients:
  "map_sum id (\<lambda>m. (headers m, payload m))
     (build_message fs lib guess from_address from_name to subject text html cc bcc reply_to
        attachments) =
   map_sum id (\<lambda>m. (headers m, payload m))
     (build_message fs lib guess from_address from_name to subject text html cc bcc' reply_to
        attachments) \<and>
   (\<forall>m. build_message fs lib guess from_address from_name to subject text html cc bcc
          reply_to attachments = Inr m \<longrightarrow>
        set (map fst (headers m)) \<subseteq> {''From'', ''To'', ''Cc'', ''Subject'', ''Reply-To''})"
proof (rule conjI)
  show "map_sum id (\<lambda>m. (headers m, payload m))
     (build_message fs lib guess from_address from_name to subject text html cc bcc reply_to
        attachments) =
   map_sum id (\<lambda>m. (headers m, payload m))
     (build_message fs lib guess from_address from_name to subject text html cc bcc' reply_to
        attachments)"
    by (simp add: build_message_def and_then_def split: sum.splits)
next
  show "\<forall>m. build_message fs lib guess from_address from_name to subject text html cc bcc
          reply_to attachments = Inr m \<longrightarrow>
        set (map fst (headers m)) \<subseteq> {''From'', ''To'', ''Cc'', ''Subject'', ''Reply-To''}"
  proof (intro allI impI)
    fix m
    assume "build_message fs lib guess from_address from_name to subject text html cc bcc
          reply_to attachments = Inr m"
    from build_message_Inr [OF this]
    show "set (map fst (headers m)) \<subseteq> {''From'', ''To'', ''Cc'', ''Subject'', ''Reply-To''}"
      by (auto split: option.splits list.splits)
  qed
qed

text \<open>
  Claim C8 on a message with one Bcc address: headers and content are those of the message
  built without it.
\<close>

theorem C8_bcc_only_in_recipients_witness:
  "map_sum id (\<lambda>m. (headers m, payload m))
     (build_message Map.empty example_library (\<lambda>p. None) ''me@x.com'' [] [''a@x.com''] ''Hi''
        ''Hello'' None (Some [''c@x.com'']) (Some [''secret@x.com'']) None None) =
   Inr ([(''From'', ''me@x.com''), (''To'', ''a@x.com''), (''Cc'', ''c@x.com''),
         (''Subject'', ''Hi'')], Some (Text_part ''plain'' ''Hello''))"
proof -
  have "map_sum id (\<lambda>m. (headers m, payload m))
     (build_message Map.empty example_library (\<lambda>p. None) ''me@x.com'' [] [''a@x.com''] ''Hi''
        ''Hello'' None (Some [''c@x.com'']) None None None) =
   Inr ([(''From'', ''me@x.com''), (''To'', ''a@x.com''), (''Cc'', ''c@x.com''),
         (''Subject'', ''Hi'')], Some (Text_part ''plain'' ''Hello''))"
    by (simp add: build_message_def message_body_def message_headers_def EmailMessage_def
      example_defs truthy_def or_nil_def recipients_of_def Let_def)
  with C8_bcc_only_in_recipients [of Map.empty example_library "\<lambda>p. None" "''me@x.com''" "[]"
      "[''a@x.com'']" "''Hi''" "''Hello''" None "Some [''c@x.com'']" "Some [''secret@x.com'']"
      None None None]
  show ?thesis by simp
qed

end
